theory Spec2Isabelle
  imports Complex_Main "HOL-Library.Sublist"
begin

section \<open>Notification records\<close>

text \<open>
  The options of a notification as the runtime sees them. The declared unions of string
  literals are kept as strings, because the rendering code reads them with \<open>||\<close> and with
  object indexing, both of which act on whatever string is stored. A field that is left
  out is \<open>None\<close>.
\<close>

text \<open>
  A value of the type \<open>number\<close>: a real number (the two zeros are one), one of the two
  infinities, or NaN. Rounding is not modelled.
\<close>

datatype number = Num real | NaN | Infinity | NegInfinity

text \<open>Truthiness of a number: every number but zero and NaN.\<close>

fun truthy :: "number \<Rightarrow> bool" where
  "truthy (Num r) = (r \<noteq> 0)"
| "truthy NaN = False"
| "truthy Infinity = True"
| "truthy NegInfinity = True"

record NotificationOptions =
  duration :: "number option"
  variant :: "string option"
  type' :: "string option"
  position :: "string option"

record Notification =
  id' :: string
  message :: string
  options :: "NotificationOptions option"

text \<open>Optional chaining \<open>n.options?.f\<close>.\<close>

definition opt_field :: "(NotificationOptions \<Rightarrow> 'a option) \<Rightarrow> NotificationOptions option \<Rightarrow> 'a option" where
  "opt_field f opts = (case opts of None \<Rightarrow> None | Some os \<Rightarrow> f os)"

text \<open>The values each declared union admits.\<close>

definition declared_variants :: "string list" where
  "declared_variants = [''toast'', ''sooner'', ''banner'']"

definition declared_types :: "string list" where
  "declared_types = [''default'', ''success'', ''error'', ''warning'']"

definition declared_positions :: "string list" where
  "declared_positions = [''top-right'', ''top-left'', ''bottom-right'', ''bottom-left'', ''center'']"

section \<open>Decimal rendering of numbers in template literals\<close>

definition digit_char :: "nat \<Rightarrow> char" where
  "digit_char d = ''0123456789'' ! d"

fun string_of_nat :: "nat \<Rightarrow> string" where
  "string_of_nat n =
     (if n < 10 then [digit_char n]
      else string_of_nat (n div 10) @ [digit_char (n mod 10)])"

declare string_of_nat.simps [simp del]

text \<open>A negative number prints with a leading minus sign; zero prints as \<open>0\<close>.\<close>

definition string_of_int :: "int \<Rightarrow> string" where
  "string_of_int i = (if i < 0 then CHR ''-'' # string_of_nat (nat (- i)) else string_of_nat (nat i))"

section \<open>The provider: the notification list and the pending timers\<close>

text \<open>
  A pending \<open>setTimeout(() => removeNotification(id), options.duration)\<close>: the delay it was
  given and the id its callback removes.
\<close>

record Timer =
  delay :: number
  target :: string

record ProviderState =
  notifications :: "Notification list"
  timers :: "Timer list"

definition initial :: ProviderState where
  "initial = \<lparr>notifications = [], timers = []\<rparr>"

text \<open>
  The id is \<open>notification_\<close> followed by the millisecond clock \<open>Date.now()\<close>, which the
  model takes as an argument (a natural number, printed in decimal).
\<close>

definition notification_id :: "nat \<Rightarrow> string" where
  "notification_id now = ''notification_'' @ string_of_nat now"

definition removeNotification :: "string \<Rightarrow> ProviderState \<Rightarrow> ProviderState" where
  "removeNotification i st =
     st\<lparr>notifications := filter (\<lambda>notif. id' notif \<noteq> i) (notifications st)\<rparr>"

text \<open>
  \<open>if (options?.duration)\<close> tests the duration for truthiness: it must be present, and
  neither zero nor NaN.
\<close>

definition truthy_duration :: "NotificationOptions option \<Rightarrow> number option" where
  "truthy_duration opts =
     (case opt_field duration opts of
        None \<Rightarrow> None
      | Some d \<Rightarrow> if truthy d then Some d else None)"

definition addNotification ::
  "nat \<Rightarrow> string \<Rightarrow> NotificationOptions option \<Rightarrow> ProviderState \<Rightarrow> ProviderState" where
  "addNotification now msg opts st =
     (let i = notification_id now;
          st' = st\<lparr>notifications := notifications st @ [\<lparr>id' = i, message = msg, options = opts\<rparr>]\<rparr>
      in case truthy_duration opts of
           None \<Rightarrow> st'
         | Some d \<Rightarrow> st'\<lparr>timers := timers st' @ [\<lparr>delay = d, target = i\<rparr>]\<rparr>)"

text \<open>
  The runtime runs the \<open>k\<close>-th pending timer: the timer is spent and its callback calls
  \<open>removeNotification\<close> on its id. Nothing happens when there is no such timer.
\<close>

definition fireTimer :: "nat \<Rightarrow> ProviderState \<Rightarrow> ProviderState" where
  "fireTimer k st =
     (if k < length (timers st)
      then removeNotification (target (timers st ! k))
             (st\<lparr>timers := take k (timers st) @ drop (Suc k) (timers st)\<rparr>)
      else st)"

text \<open>
  What can happen to a provider: a caller adds (at a clock reading), a caller or a dismiss
  button removes, a timer fires.
\<close>

datatype event =
  Add nat string "NotificationOptions option"
| Remove string
| Fire nat

fun step :: "ProviderState \<Rightarrow> event \<Rightarrow> ProviderState" where
  "step st (Add now msg opts) = addNotification now msg opts st"
| "step st (Remove i) = removeNotification i st"
| "step st (Fire k) = fireTimer k st"

definition run :: "event list \<Rightarrow> ProviderState \<Rightarrow> ProviderState" where
  "run evs st = foldl step st evs"

section \<open>The hook\<close>

datatype error = Error string

definition useNotification :: "'ctx option \<Rightarrow> error + 'ctx" where
  "useNotification context =
     (case context of
        None \<Rightarrow> Inl (Error ''useNotification must be used within a NotificationProvider'')
      | Some c \<Rightarrow> Inr c)"

section \<open>Rendering\<close>

text \<open>
  \<open>x || d\<close> on an optional string: the default replaces a missing value and the empty
  string, every other string is kept as it is.
\<close>

definition or_default :: "string option \<Rightarrow> string \<Rightarrow> string" where
  "or_default x d = (case x of None \<Rightarrow> d | Some s \<Rightarrow> if s = [] then d else s)"

text \<open>
  The three class tables are object literals. Indexing one with a key of its own gives
  the class string. A key it does not have is looked up in \<open>Object.prototype\<close>: for one
  of the names below the result is the inherited member (a function, or the prototype
  itself for \<open>__proto__\<close>), for every other key it is \<open>undefined\<close>.
\<close>

datatype class_arg = Class string | Undefined | Inherited string

definition object_prototype_keys :: "string list" where
  "object_prototype_keys =
     [''constructor'', ''__defineGetter__'', ''__defineSetter__'', ''hasOwnProperty'',
      ''__lookupGetter__'', ''__lookupSetter__'', ''isPrototypeOf'', ''propertyIsEnumerable'',
      ''toString'', ''valueOf'', ''__proto__'', ''toLocaleString'']"

definition index_object :: "(string \<times> string) list \<Rightarrow> string \<Rightarrow> class_arg" where
  "index_object table k =
     (case map_of table k of
        Some c \<Rightarrow> Class c
      | None \<Rightarrow> if k \<in> set object_prototype_keys then Inherited k else Undefined)"

definition positionClasses :: "(string \<times> string) list" where
  "positionClasses =
     [(''top-right'', ''fixed top-5 right-5''),
      (''top-left'', ''fixed top-5 left-5''),
      (''bottom-right'', ''fixed bottom-5 right-5''),
      (''bottom-left'', ''fixed bottom-5 left-5''),
      (''center'', ''fixed top-5 left-1/2 -translate-x-1/2'')]"

definition typeClasses :: "(string \<times> string) list" where
  "typeClasses =
     [(''default'', ''bg-gray-200 text-black''),
      (''success'', ''bg-green-500 text-white''),
      (''error'', ''bg-red-500 text-white''),
      (''warning'', ''bg-yellow-500 text-black'')]"

definition variantClasses :: "(string \<times> string) list" where
  "variantClasses =
     [(''toast'', ''shadow-lg''),
      (''sooner'', ''shadow-md''),
      (''banner'', ''w-full'')]"

definition baseClasses :: string where
  "baseClasses = ''px-4 py-3 w-[20rem] rounded-xl border backdrop-blur flex items-center gap-2 relative''"

text \<open>
  A rendered item: the arguments handed to the class joiner \<open>cfx\<close> (an external
  library, not modelled), the message shown, and the id its close button removes.
\<close>

record ItemView =
  item_classes :: "class_arg list"
  item_message :: string
  item_dismisses :: string

definition NotificationItem :: "string \<Rightarrow> string \<Rightarrow> NotificationOptions option \<Rightarrow> ItemView" where
  "NotificationItem i msg opts =
     \<lparr>item_classes =
        [Class baseClasses,
         index_object typeClasses (or_default (opt_field type' opts) ''default''),
         index_object variantClasses (or_default (opt_field variant opts) ''toast'')],
      item_message = msg,
      item_dismisses = i\<rparr>"

text \<open>A wrapper \<open>div\<close> of the container: its key, its class arguments, the item inside.\<close>

record Wrapper =
  key :: string
  classes :: "class_arg list"
  item :: ItemView

record ContainerView =
  toast_views :: "Wrapper list"
  sooner_group_classes :: "class_arg list"
  sooner_views :: "Wrapper list"

definition toasts :: "Notification list \<Rightarrow> Notification list" where
  "toasts ns = filter (\<lambda>n. opt_field variant (options n) = Some ''toast'') ns"

definition sooners :: "Notification list \<Rightarrow> Notification list" where
  "sooners ns = take 5 (filter (\<lambda>n. opt_field variant (options n) = Some ''sooner'') ns)"

definition toast_wrapper :: "Notification \<Rightarrow> Wrapper" where
  "toast_wrapper notification =
     \<lparr>key = id' notification,
      classes =
        [Class ''z-50'',
         index_object positionClasses (or_default (opt_field position (options notification)) ''top-right'')],
      item = NotificationItem (id' notification) (message notification) (options notification)\<rparr>"

definition sooner_wrapper :: "nat \<Rightarrow> Notification \<Rightarrow> Wrapper" where
  "sooner_wrapper index notification =
     \<lparr>key = id' notification,
      classes =
        [Class ''transition-all duration-300 ease-in-out'',
         Class (''translate-y-'' @ string_of_int (int index * (- 2))),
         Class (''w-[calc(20rem-'' @ string_of_int (int index * 4) @ ''px)]'')],
      item = NotificationItem (id' notification) (message notification) (options notification)\<rparr>"

text \<open>
  The position of the stacked group is read from the first stacked notification,
  \<open>sooners[0]?.options?.position\<close>; with no stacked notification it is left out.
\<close>

definition sooner_group_position :: "Notification list \<Rightarrow> string option" where
  "sooner_group_position ss =
     (case ss of [] \<Rightarrow> None | s # _ \<Rightarrow> opt_field position (options s))"

definition NotificationContainer :: "Notification list \<Rightarrow> ContainerView" where
  "NotificationContainer ns =
     \<lparr>toast_views = map toast_wrapper (toasts ns),
      sooner_group_classes =
        [Class ''z-50'',
         index_object positionClasses (or_default (sooner_group_position (sooners ns)) ''top-right''),
         Class ''space-y-2''],
      sooner_views = map (\<lambda>(index, notification). sooner_wrapper index notification)
                       (enumerate 0 (sooners ns))\<rparr>"

text \<open>What the provider shows: the container over its current list.\<close>

definition render :: "ProviderState \<Rightarrow> ContainerView" where
  "render st = NotificationContainer (notifications st)"

section \<open>Notions used to state the properties\<close>

text \<open>The records that the \<open>Add\<close> events of a run create, in the order of the calls.\<close>

fun created :: "event list \<Rightarrow> Notification list" where
  "created [] = []"
| "created (Add now msg opts # evs) =
     \<lparr>id' = notification_id now, message = msg, options = opts\<rparr> # created evs"
| "created (Remove i # evs) = created evs"
| "created (Fire k # evs) = created evs"

text \<open>
  The step of an event calls \<open>removeNotification\<close> with the id \<open>i\<close> when the event is such
  a call by a caller or a dismiss button, or the firing of a pending timer whose callback
  carries \<open>i\<close>. A run never removes \<open>i\<close> when none of its steps does.
\<close>

fun calls_remove :: "string \<Rightarrow> ProviderState \<Rightarrow> event \<Rightarrow> bool" where
  "calls_remove i st (Add now msg opts) = False"
| "calls_remove i st (Remove j) = (j = i)"
| "calls_remove i st (Fire k) = (k < length (timers st) \<and> target (timers st ! k) = i)"

fun never_removed :: "string \<Rightarrow> ProviderState \<Rightarrow> event list \<Rightarrow> bool" where
  "never_removed i st [] = True"
| "never_removed i st (ev # evs) = (\<not> calls_remove i st ev \<and> never_removed i (step st ev) evs)"

text \<open>A run of calls of \<open>addNotification\<close>, one per entry: clock value, message, options.\<close>

definition adds :: "(nat \<times> string \<times> NotificationOptions) list \<Rightarrow> event list" where
  "adds xs = map (\<lambda>(now, msg, os). Add now msg (Some os)) xs"

definition record_of :: "nat \<times> string \<times> NotificationOptions \<Rightarrow> Notification" where
  "record_of x = (case x of (now, msg, os) \<Rightarrow>
     \<lparr>id' = notification_id now, message = msg, options = Some os\<rparr>)"

section \<open>Decimal strings and ids\<close>

lemma digit_char_inj: "a < 10 \<Longrightarrow> b < 10 \<Longrightarrow> digit_char a = digit_char b \<Longrightarrow> a = b"
proof -
  assume a: "a < 10" and b: "b < 10" and e: "digit_char a = digit_char b"
  have d: "distinct ''0123456789''" by simp
  from a b e show "a = b"
    unfolding digit_char_def by (subst (asm) nth_eq_iff_index_eq [OF d]) simp_all
qed

lemma string_of_nat_nonempty: "string_of_nat n \<noteq> []"
  by (subst string_of_nat.simps) simp

lemma string_of_nat_small: "n < 10 \<Longrightarrow> string_of_nat n = [digit_char n]"
  by (subst string_of_nat.simps) simp

lemma string_of_nat_large:
  "\<not> n < 10 \<Longrightarrow> string_of_nat n = string_of_nat (n div 10) @ [digit_char (n mod 10)]"
  by (subst string_of_nat.simps) simp

lemma string_of_nat_inj: "string_of_nat n = string_of_nat m \<Longrightarrow> n = m"
proof (induction n arbitrary: m rule: string_of_nat.induct)
  case (1 n)
  show ?case
  proof (cases "n < 10")
    case n_small: True
    show ?thesis
    proof (cases "m < 10")
      case True
      with n_small "1.prems" have "digit_char n = digit_char m"
        by (simp add: string_of_nat_small)
      with n_small True show ?thesis by (rule digit_char_inj)
    next
      case False
      with n_small "1.prems" string_of_nat_nonempty [of "m div 10"] show ?thesis
        by (cases "string_of_nat (m div 10)") (auto simp: string_of_nat_small string_of_nat_large)
    qed
  next
    case n_large: False
    show ?thesis
    proof (cases "m < 10")
      case True
      with n_large "1.prems" string_of_nat_nonempty [of "n div 10"] show ?thesis
        by (cases "string_of_nat (n div 10)") (auto simp: string_of_nat_small string_of_nat_large)
    next
      case False
      with n_large "1.prems" have init_eq: "string_of_nat (n div 10) = string_of_nat (m div 10)"
        and last_eq: "digit_char (n mod 10) = digit_char (m mod 10)"
        by (simp_all add: string_of_nat_large)
      from "1.IH" [OF n_large init_eq] have "n div 10 = m div 10" .
      moreover from last_eq have "n mod 10 = m mod 10" by (intro digit_char_inj) simp_all
      ultimately show ?thesis by (metis div_mult_mod_eq)
    qed
  qed
qed

lemma notification_id_inj: "notification_id a = notification_id b \<longleftrightarrow> a = b"
  by (auto simp: notification_id_def dest: string_of_nat_inj)

section \<open>The operations on the two components of the state\<close>

lemma notifications_removeNotification:
  "notifications (removeNotification i st) = filter (\<lambda>n. id' n \<noteq> i) (notifications st)"
  by (simp add: removeNotification_def)

lemma timers_removeNotification: "timers (removeNotification i st) = timers st"
  by (simp add: removeNotification_def)

lemma notifications_addNotification:
  "notifications (addNotification now msg opts st) =
     notifications st @ [\<lparr>id' = notification_id now, message = msg, options = opts\<rparr>]"
  by (simp add: addNotification_def Let_def split: option.splits)

lemma timers_addNotification:
  "timers (addNotification now msg opts st) =
     timers st @ (case truthy_duration opts of
                    None \<Rightarrow> []
                  | Some d \<Rightarrow> [\<lparr>delay = d, target = notification_id now\<rparr>])"
  by (simp add: addNotification_def Let_def split: option.splits)

lemma notifications_fireTimer:
  "notifications (fireTimer k st) =
     (if k < length (timers st)
      then filter (\<lambda>n. id' n \<noteq> target (timers st ! k)) (notifications st)
      else notifications st)"
  by (simp add: fireTimer_def removeNotification_def)

lemma timers_fireTimer:
  "timers (fireTimer k st) =
     (if k < length (timers st) then take k (timers st) @ drop (Suc k) (timers st)
      else timers st)"
  by (simp add: fireTimer_def removeNotification_def)

lemma run_Nil: "run [] st = st"
  by (simp add: run_def)

lemma run_Cons: "run (ev # evs) st = run evs (step st ev)"
  by (simp add: run_def)

lemma run_append: "run (evs @ evs') st = run evs' (run evs st)"
  by (simp add: run_def)

text \<open>The facts that evaluate a run on concrete events.\<close>

lemmas eval_run = run_Nil run_Cons initial_def addNotification_def
  removeNotification_def fireTimer_def truthy_duration_def opt_field_def notification_id_def
  string_of_nat.simps digit_char_def Let_def

lemmas eval_render = render_def NotificationContainer_def toasts_def sooners_def
  toast_wrapper_def sooner_wrapper_def sooner_group_position_def NotificationItem_def
  or_default_def index_object_def object_prototype_keys_def positionClasses_def typeClasses_def variantClasses_def string_of_int_def
  enumerate_eq_zip

section \<open>Runs of events\<close>

text \<open>
  Whatever happens, the list after a run is a subsequence of the list before it followed
  by the records the run's adds create.
\<close>

lemma notifications_step_subseq:
  "subseq (notifications (step st ev)) (notifications st @ created [ev])"
proof (cases ev)
  case (Add now msg opts)
  then show ?thesis by (simp add: notifications_addNotification)
next
  case (Remove i)
  then show ?thesis by (simp add: notifications_removeNotification)
next
  case (Fire k)
  then show ?thesis by (simp add: notifications_fireTimer)
qed

lemma created_Cons: "created (ev # evs) = created [ev] @ created evs"
  by (cases ev) simp_all

lemma notifications_run_subseq:
  "subseq (notifications (run evs st)) (notifications st @ created evs)"
proof (induction evs arbitrary: st)
  case Nil
  then show ?case by (simp add: run_Nil)
next
  case (Cons ev evs)
  have "subseq (notifications (run evs (step st ev))) (notifications (step st ev) @ created evs)"
    by (rule Cons.IH)
  also have "subseq (notifications (step st ev) @ created evs)
                    ((notifications st @ created [ev]) @ created evs)"
    by (intro list_emb_append_mono notifications_step_subseq subseq_order.order_refl)
  finally show ?case
    by (simp add: run_Cons created_Cons [of ev evs])
qed

text \<open>
  A record stays in the list through every step that does not call \<open>removeNotification\<close>
  with its id, so through every run that never removes its id.
\<close>

lemma kept_by_step:
  assumes "r \<in> set (notifications st)" and "\<not> calls_remove (id' r) st ev"
  shows "r \<in> set (notifications (step st ev))"
proof (cases ev)
  case (Add now msg opts)
  with assms show ?thesis by (simp add: notifications_addNotification)
next
  case (Remove j)
  with assms show ?thesis by (auto simp: notifications_removeNotification)
next
  case (Fire k)
  with assms show ?thesis by (auto simp: notifications_fireTimer)
qed

lemma kept_by_run:
  assumes "r \<in> set (notifications st)" and "never_removed (id' r) st evs"
  shows "r \<in> set (notifications (run evs st))"
  using assms
proof (induction evs arbitrary: st)
  case Nil
  then show ?case by (simp add: run_Nil)
next
  case (Cons ev evs)
  from Cons.prems have "r \<in> set (notifications (step st ev))"
    by (intro kept_by_step) simp_all
  moreover from Cons.prems have "never_removed (id' r) (step st ev) evs" by simp
  ultimately have "r \<in> set (notifications (run evs (step st ev)))" by (rule Cons.IH)
  then show ?case by (simp add: run_Cons)
qed

text \<open>
  A run of adds from the empty provider; with clock values that differ the ids differ.
\<close>

lemma notifications_run_adds:
  "notifications (run (adds xs) st) = notifications st @ map record_of xs"
proof (induction xs arbitrary: st)
  case Nil
  then show ?case by (simp add: adds_def run_Nil)
next
  case (Cons x xs)
  obtain now msg os where x: "x = (now, msg, os)" by (cases x)
  have "run (adds (x # xs)) st = run (adds xs) (addNotification now msg (Some os) st)"
    by (simp add: adds_def run_Cons x)
  then show ?case
    by (simp add: Cons.IH notifications_addNotification record_of_def x)
qed

lemma id_record_of: "id' (record_of x) = notification_id (fst x)"
  by (cases x) (simp add: record_of_def)

lemma distinct_ids_when_clock_differs:
  assumes "distinct (map fst xs)"
  shows "distinct (map id' (notifications (run (adds xs) initial)))"
proof -
  have "inj_on notification_id (set (map fst xs))"
    by (rule inj_onI) (simp add: notification_id_inj)
  with assms have "distinct (map notification_id (map fst xs))"
    by (simp only: distinct_map)
  then show ?thesis
    by (simp add: notifications_run_adds initial_def o_def id_record_of)
qed

lemma filter_other_keys:
  assumes "distinct (map f xs)" and "j < length xs"
  shows "filter (\<lambda>x. f x \<noteq> f (xs ! j)) xs = take j xs @ drop (Suc j) xs"
proof -
  have split: "xs = take j xs @ xs ! j # drop (Suc j) xs"
    using assms(2) by (rule id_take_nth_drop)
  from assms(1) have d: "distinct (map f (take j xs) @ f (xs ! j) # map f (drop (Suc j) xs))"
    by (subst (asm) split) simp
  then have "f (xs ! j) \<notin> f ` set (take j xs)" and "f (xs ! j) \<notin> f ` set (drop (Suc j) xs)"
    by auto
  then have l: "\<forall>x \<in> set (take j xs). f x \<noteq> f (xs ! j)"
    and r: "\<forall>x \<in> set (drop (Suc j) xs). f x \<noteq> f (xs ! j)"
    by (metis imageI)+
  have "filter (\<lambda>x. f x \<noteq> f (xs ! j)) (take j xs @ xs ! j # drop (Suc j) xs)
        = take j xs @ drop (Suc j) xs"
    using l r by (simp add: filter_id_conv)
  with split show ?thesis by simp
qed

lemma remove_record_of:
  assumes "distinct (map fst xs)" and "j < length xs"
  shows "filter (\<lambda>n. id' n \<noteq> id' (record_of (xs ! j))) (map record_of xs)
         = map record_of (take j xs @ drop (Suc j) xs)"
proof -
  have "filter (\<lambda>n. id' n \<noteq> id' (record_of (xs ! j))) (map record_of xs)
        = map record_of (filter (\<lambda>x. fst x \<noteq> fst (xs ! j)) xs)"
    by (simp add: filter_map o_def id_record_of notification_id_inj)
  with assms show ?thesis by (simp add: filter_other_keys)
qed

section \<open>The rendered stack\<close>

lemma sooner_views_nth:
  assumes "k < length (sooners ns)"
  shows "sooner_views (NotificationContainer ns) ! k = sooner_wrapper k (sooners ns ! k)"
  using assms by (simp add: NotificationContainer_def nth_enumerate_eq)

lemma length_sooner_views:
  "length (sooner_views (NotificationContainer ns)) = length (sooners ns)"
  by (simp add: NotificationContainer_def)

lemma string_of_int_of_nat: "string_of_int (int k * 4) = string_of_nat (4 * k)"
  by (simp add: string_of_int_def nat_mult_distrib mult.commute)

lemma sooner_wrapper_classes_differ:
  assumes "k \<noteq> j"
  shows "classes (sooner_wrapper k n) \<noteq> classes (sooner_wrapper j m)"
proof
  assume "classes (sooner_wrapper k n) = classes (sooner_wrapper j m)"
  then have "string_of_nat (4 * k) = string_of_nat (4 * j)"
    by (simp add: sooner_wrapper_def string_of_int_of_nat)
  then have "4 * k = 4 * j" by (rule string_of_nat_inj)
  with assms show False by simp
qed

lemma sooners_all_sooner:
  assumes "\<forall>x \<in> set xs. variant (snd (snd x)) = Some ''sooner''"
  shows "sooners (map record_of xs) = take 5 (map record_of xs)"
proof -
  from assms have "\<forall>n \<in> set (map record_of xs). opt_field variant (options n) = Some ''sooner''"
    by (auto simp: record_of_def opt_field_def)
  then show ?thesis
    by (simp only: sooners_def filter_id_conv [THEN iffD2])
qed

lemma rendered_sooners:
  "map (\<lambda>w. (key w, item_message (item w))) (sooner_views (NotificationContainer ns))
   = map (\<lambda>n. (id' n, message n)) (sooners ns)"
proof -
  have "map (\<lambda>w. (key w, item_message (item w))) (sooner_views (NotificationContainer ns))
        = map ((\<lambda>n. (id' n, message n)) \<circ> snd) (enumerate 0 (sooners ns))"
    by (simp add: NotificationContainer_def sooner_wrapper_def NotificationItem_def
        o_def split_def)
  also have "\<dots> = map (\<lambda>n. (id' n, message n)) (map snd (enumerate 0 (sooners ns)))"
    by (simp only: map_map)
  also have "\<dots> = map (\<lambda>n. (id' n, message n)) (sooners ns)"
    by (simp only: map_snd_enumerate)
  finally show ?thesis .
qed

lemma every_toast_is_rendered:
  assumes "n \<in> set ns" and "opt_field variant (options n) = Some ''toast''"
  shows "toast_wrapper n \<in> set (toast_views (NotificationContainer ns))"
  using assms by (simp add: NotificationContainer_def toasts_def)

text \<open>
  The rendered stack is the first five records of variant \<open>sooner\<close>, in the order of the
  list, for every list. After a run of adds of that variant from the empty provider every
  record is in the set and the first five are rendered; when the clock values differ,
  removing the \<open>j\<close>-th of them leaves the others in the set and the first five of the
  others are rendered. The instance after it: seven adds A to G at seven clock values,
  then the removal of A.
\<close>

lemma rendered_sooner_window:
  "map (\<lambda>w. (key w, item_message (item w))) (sooner_views (NotificationContainer ns)) =
     map (\<lambda>n. (id' n, message n))
       (take 5 (filter (\<lambda>n. opt_field variant (options n) = Some ''sooner'') ns))
   \<and> ((\<forall>x \<in> set xs. variant (snd (snd x)) = Some ''sooner'') \<longrightarrow>
        notifications (run (adds xs) initial) = map record_of xs
        \<and> map (\<lambda>w. (key w, item_message (item w))) (sooner_views (render (run (adds xs) initial))) =
            map (\<lambda>n. (id' n, message n)) (take 5 (map record_of xs))
        \<and> (distinct (map fst xs) \<and> j < length xs \<longrightarrow>
             notifications (run (adds xs @ [Remove (id' (record_of (xs ! j)))]) initial) =
               map record_of (take j xs @ drop (Suc j) xs)
             \<and> map (\<lambda>w. (key w, item_message (item w)))
                 (sooner_views (render (run (adds xs @ [Remove (id' (record_of (xs ! j)))]) initial))) =
               map (\<lambda>n. (id' n, message n)) (take 5 (map record_of (take j xs @ drop (Suc j) xs)))))"
proof (intro conjI impI)
  show "map (\<lambda>w. (key w, item_message (item w))) (sooner_views (NotificationContainer ns)) =
     map (\<lambda>n. (id' n, message n))
       (take 5 (filter (\<lambda>n. opt_field variant (options n) = Some ''sooner'') ns))"
    by (simp only: rendered_sooners sooners_def)
next
  assume a: "\<forall>x \<in> set xs. variant (snd (snd x)) = Some ''sooner''"
  show all: "notifications (run (adds xs) initial) = map record_of xs"
    by (simp add: notifications_run_adds initial_def)
  from a have "sooners (map record_of xs) = take 5 (map record_of xs)"
    by (rule sooners_all_sooner)
  then show "map (\<lambda>w. (key w, item_message (item w))) (sooner_views (render (run (adds xs) initial))) =
            map (\<lambda>n. (id' n, message n)) (take 5 (map record_of xs))"
    by (simp only: render_def rendered_sooners all)
  assume j: "distinct (map fst xs) \<and> j < length xs"
  then show rest: "notifications (run (adds xs @ [Remove (id' (record_of (xs ! j)))]) initial) =
               map record_of (take j xs @ drop (Suc j) xs)"
    by (simp add: run_append run_Cons run_Nil notifications_removeNotification all
        remove_record_of)
  from a have "\<forall>x \<in> set (take j xs @ drop (Suc j) xs). variant (snd (snd x)) = Some ''sooner''"
    by (auto dest: in_set_takeD in_set_dropD)
  then have "sooners (map record_of (take j xs @ drop (Suc j) xs)) =
      take 5 (map record_of (take j xs @ drop (Suc j) xs))"
    by (rule sooners_all_sooner)
  then show "map (\<lambda>w. (key w, item_message (item w)))
                 (sooner_views (render (run (adds xs @ [Remove (id' (record_of (xs ! j)))]) initial))) =
               map (\<lambda>n. (id' n, message n)) (take 5 (map record_of (take j xs @ drop (Suc j) xs)))"
    by (simp only: render_def rendered_sooners rest)
qed

lemma rendered_sooner_window_distinct_clock:
  "length (notifications (run (adds
       [(1001, ''A'', \<lparr>duration = None, variant = Some ''sooner'', type' = None, position = None\<rparr>),
        (1002, ''B'', \<lparr>duration = None, variant = Some ''sooner'', type' = None, position = None\<rparr>),
        (1003, ''C'', \<lparr>duration = None, variant = Some ''sooner'', type' = None, position = None\<rparr>),
        (1004, ''D'', \<lparr>duration = None, variant = Some ''sooner'', type' = None, position = None\<rparr>),
        (1005, ''E'', \<lparr>duration = None, variant = Some ''sooner'', type' = None, position = None\<rparr>),
        (1006, ''F'', \<lparr>duration = None, variant = Some ''sooner'', type' = None, position = None\<rparr>),
        (1007, ''G'', \<lparr>duration = None, variant = Some ''sooner'', type' = None, position = None\<rparr>)]) initial)) = 7
   \<and> map (\<lambda>w. (key w, item_message (item w))) (sooner_views (render (run (adds
       [(1001, ''A'', \<lparr>duration = None, variant = Some ''sooner'', type' = None, position = None\<rparr>),
        (1002, ''B'', \<lparr>duration = None, variant = Some ''sooner'', type' = None, position = None\<rparr>),
        (1003, ''C'', \<lparr>duration = None, variant = Some ''sooner'', type' = None, position = None\<rparr>),
        (1004, ''D'', \<lparr>duration = None, variant = Some ''sooner'', type' = None, position = None\<rparr>),
        (1005, ''E'', \<lparr>duration = None, variant = Some ''sooner'', type' = None, position = None\<rparr>),
        (1006, ''F'', \<lparr>duration = None, variant = Some ''sooner'', type' = None, position = None\<rparr>),
        (1007, ''G'', \<lparr>duration = None, variant = Some ''sooner'', type' = None, position = None\<rparr>)]) initial))) =
     [(''notification_1001'', ''A''), (''notification_1002'', ''B''), (''notification_1003'', ''C''), (''notification_1004'', ''D''), (''notification_1005'', ''E'')]
   \<and> map (\<lambda>w. (key w, item_message (item w))) (sooner_views (render (run (adds
       [(1001, ''A'', \<lparr>duration = None, variant = Some ''sooner'', type' = None, position = None\<rparr>),
        (1002, ''B'', \<lparr>duration = None, variant = Some ''sooner'', type' = None, position = None\<rparr>),
        (1003, ''C'', \<lparr>duration = None, variant = Some ''sooner'', type' = None, position = None\<rparr>),
        (1004, ''D'', \<lparr>duration = None, variant = Some ''sooner'', type' = None, position = None\<rparr>),
        (1005, ''E'', \<lparr>duration = None, variant = Some ''sooner'', type' = None, position = None\<rparr>),
        (1006, ''F'', \<lparr>duration = None, variant = Some ''sooner'', type' = None, position = None\<rparr>),
        (1007, ''G'', \<lparr>duration = None, variant = Some ''sooner'', type' = None, position = None\<rparr>)] @ [Remove ''notification_1001'']) initial))) =
     [(''notification_1002'', ''B''), (''notification_1003'', ''C''), (''notification_1004'', ''D''), (''notification_1005'', ''E''), (''notification_1006'', ''F'')]"
  using rendered_sooner_window [of "[]"
      "[(1001, ''A'', \<lparr>duration = None, variant = Some ''sooner'', type' = None, position = None\<rparr>),
        (1002, ''B'', \<lparr>duration = None, variant = Some ''sooner'', type' = None, position = None\<rparr>),
        (1003, ''C'', \<lparr>duration = None, variant = Some ''sooner'', type' = None, position = None\<rparr>),
        (1004, ''D'', \<lparr>duration = None, variant = Some ''sooner'', type' = None, position = None\<rparr>),
        (1005, ''E'', \<lparr>duration = None, variant = Some ''sooner'', type' = None, position = None\<rparr>),
        (1006, ''F'', \<lparr>duration = None, variant = Some ''sooner'', type' = None, position = None\<rparr>),
        (1007, ''G'', \<lparr>duration = None, variant = Some ''sooner'', type' = None, position = None\<rparr>)]" 0]
  by (simp add: record_of_def notification_id_def string_of_nat.simps digit_char_def)

section \<open>Claims about the dispatcher\<close>

text \<open>
  C1 (where the code departs from it). The claim wants the ids of the live notifications
  pairwise different at every instant, and the size of the set equal to the number of
  adds minus the number of removals. The id is built from the millisecond clock alone:
  two calls of \<open>addNotification\<close> that read the same clock value give two live records
  with one id, and a single removal then deletes both.
\<close>

theorem same_millisecond_ids_collide:
  "map id' (notifications (run [Add 1000 ''first'' None, Add 1000 ''second'' None] initial)) =
     [''notification_1000'', ''notification_1000'']
   \<and> \<not> distinct (map id' (notifications (run [Add 1000 ''first'' None, Add 1000 ''second'' None] initial)))
   \<and> notifications (run [Add 1000 ''first'' None, Add 1000 ''second'' None, Remove ''notification_1000''] initial) = []"
  by (simp add: eval_run)

text \<open>
  C4, against the claim as stated. The claim arms the timer only for a duration above
  zero, and keeps a notification without duration in the set until it is explicitly
  removed. The test in the code is the truthiness of the number, so a negative duration
  arms a timer as well. And a notification without duration, added at the clock value of
  a notification with one, is removed when the timer of the other fires, with no
  explicit removal.
\<close>

theorem negative_duration_and_shared_id_timer:
  "timers (addNotification 1000 ''x''
     (Some \<lparr>duration = Some (Num (- 1)), variant = None, type' = None, position = None\<rparr>) initial) =
     [\<lparr>delay = Num (- 1), target = ''notification_1000''\<rparr>]
   \<and> \<not> (0 :: real) < - 1
   \<and> notifications (run [Add 1000 ''Stay'' None] initial) =
       [\<lparr>id' = ''notification_1000'', message = ''Stay'', options = None\<rparr>]
   \<and> timers (run [Add 1000 ''Stay'' None] initial) = []
   \<and> notifications (run
       [Add 1000 ''Stay'' None,
        Add 1000 ''Brief'' (Some \<lparr>duration = Some (Num 5), variant = None, type' = None, position = None\<rparr>),
        Fire 0] initial) = []"
  by (simp add: eval_run)

text \<open>
  C4, as amended. \<open>addNotification\<close> arms a timer exactly when the duration is present
  and truthy, that is neither zero nor NaN (a negative one counts), and then it arms one
  timer, for the new id, with that duration as delay. When the duration is absent, zero
  or NaN it arms none, and the new record is in the set after every run of later events
  in which no step calls \<open>removeNotification\<close> with its id.
\<close>

theorem addNotification_arms_timer_iff_truthy:
  "(timers (addNotification now msg opts st) \<noteq> timers st) =
     (\<exists>d. opt_field duration opts = Some d \<and> d \<noteq> Num 0 \<and> d \<noteq> NaN)
   \<and> (opt_field duration opts = Some d \<and> d \<noteq> Num 0 \<and> d \<noteq> NaN \<longrightarrow>
        timers (addNotification now msg opts st) =
          timers st @ [\<lparr>delay = d, target = notification_id now\<rparr>])
   \<and> ((opt_field duration opts = None \<or> opt_field duration opts = Some (Num 0)
         \<or> opt_field duration opts = Some NaN)
        \<and> never_removed (notification_id now) (addNotification now msg opts st) evs \<longrightarrow>
        timers (addNotification now msg opts st) = timers st
        \<and> \<lparr>id' = notification_id now, message = msg, options = opts\<rparr>
            \<in> set (notifications (run evs (addNotification now msg opts st))))"
proof (intro conjI impI)
  have t: "truthy x = (x \<noteq> Num 0 \<and> x \<noteq> NaN)" for x by (cases x) simp_all
  show "(timers (addNotification now msg opts st) \<noteq> timers st) =
     (\<exists>d. opt_field duration opts = Some d \<and> d \<noteq> Num 0 \<and> d \<noteq> NaN)"
    by (auto simp: timers_addNotification truthy_duration_def t split: option.splits)
  assume "opt_field duration opts = Some d \<and> d \<noteq> Num 0 \<and> d \<noteq> NaN"
  then show "timers (addNotification now msg opts st) =
          timers st @ [\<lparr>delay = d, target = notification_id now\<rparr>]"
    by (simp add: timers_addNotification truthy_duration_def t)
next
  assume a: "(opt_field duration opts = None \<or> opt_field duration opts = Some (Num 0)
         \<or> opt_field duration opts = Some NaN)
        \<and> never_removed (notification_id now) (addNotification now msg opts st) evs"
  then show "timers (addNotification now msg opts st) = timers st"
    by (auto simp: timers_addNotification truthy_duration_def)
  let ?r = "\<lparr>id' = notification_id now, message = msg, options = opts\<rparr>"
  show "?r \<in> set (notifications (run evs (addNotification now msg opts st)))"
  proof (rule kept_by_run)
    show "?r \<in> set (notifications (addNotification now msg opts st))"
      by (simp add: notifications_addNotification)
    from a show "never_removed (id' ?r) (addNotification now msg opts st) evs" by simp
  qed
qed

theorem addNotification_arms_timer_iff_truthy_witness:
  "timers (addNotification 1000 ''Saved''
      (Some \<lparr>duration = Some (Num 3000), variant = Some ''toast'', type' = Some ''success'', position = None\<rparr>) initial) =
     [\<lparr>delay = Num 3000, target = ''notification_1000''\<rparr>]
   \<and> timers (addNotification 3000 ''Odd''
      (Some \<lparr>duration = Some NaN, variant = None, type' = None, position = None\<rparr>) initial) = []
   \<and> timers (addNotification 2000 ''Stay''
      (Some \<lparr>duration = Some (Num 0), variant = Some ''toast'', type' = None, position = None\<rparr>) initial) = []
   \<and> \<lparr>id' = ''notification_2000'', message = ''Stay'',
       options = Some \<lparr>duration = Some (Num 0), variant = Some ''toast'', type' = None, position = None\<rparr>\<rparr>
      \<in> set (notifications (run
           [Add 2000 ''Twin'' None,
            Add 2001 ''Brief'' (Some \<lparr>duration = Some (Num 5), variant = None, type' = None, position = None\<rparr>),
            Fire 0, Remove ''notification_2001'', Fire 0]
           (addNotification 2000 ''Stay''
              (Some \<lparr>duration = Some (Num 0), variant = Some ''toast'', type' = None, position = None\<rparr>) initial)))"
  using addNotification_arms_timer_iff_truthy [of 1000 "''Saved''"
      "Some \<lparr>duration = Some (Num 3000), variant = Some ''toast'', type' = Some ''success'', position = None\<rparr>"
      initial "Num 3000" "[]"]
    addNotification_arms_timer_iff_truthy [of 3000 "''Odd''"
      "Some \<lparr>duration = Some NaN, variant = None, type' = None, position = None\<rparr>"
      initial NaN "[]"]
    addNotification_arms_timer_iff_truthy [of 2000 "''Stay''"
      "Some \<lparr>duration = Some (Num 0), variant = Some ''toast'', type' = None, position = None\<rparr>"
      initial "Num 0"
      "[Add 2000 ''Twin'' None,
            Add 2001 ''Brief'' (Some \<lparr>duration = Some (Num 5), variant = None, type' = None, position = None\<rparr>),
            Fire 0, Remove ''notification_2001'', Fire 0]"]
  by (simp add: eval_run)

text \<open>
  C5. Removing an id that no record of the set has leaves the state as it is, removing
  twice is the same as removing once, and a timer that fires after its record is gone
  leaves the list of notifications as it is.
\<close>

theorem removeNotification_absent_noop:
  "(i \<notin> id' ` set (notifications st) \<longrightarrow> removeNotification i st = st)
   \<and> removeNotification i (removeNotification i st) = removeNotification i st
   \<and> (k < length (timers st) \<and> target (timers st ! k) \<notin> id' ` set (notifications st)
        \<longrightarrow> notifications (fireTimer k st) = notifications st)"
proof (intro conjI impI)
  assume "i \<notin> id' ` set (notifications st)"
  then have "\<forall>n \<in> set (notifications st). id' n \<noteq> i" by blast
  then have "filter (\<lambda>n. id' n \<noteq> i) (notifications st) = notifications st"
    by (simp add: filter_id_conv)
  then show "removeNotification i st = st"
    by (simp add: removeNotification_def)
next
  show "removeNotification i (removeNotification i st) = removeNotification i st"
    by (simp add: removeNotification_def)
next
  assume a: "k < length (timers st) \<and> target (timers st ! k) \<notin> id' ` set (notifications st)"
  then have "\<forall>n \<in> set (notifications st). id' n \<noteq> target (timers st ! k)"
    by (metis imageI)
  then have "filter (\<lambda>n. id' n \<noteq> target (timers st ! k)) (notifications st) = notifications st"
    by (simp add: filter_id_conv)
  with a show "notifications (fireTimer k st) = notifications st"
    by (simp add: notifications_fireTimer)
qed

theorem removeNotification_absent_noop_witness:
  "''notification_7'' \<notin> id' ` set (notifications (run [Add 1000 ''Saved'' (Some \<lparr>duration = Some (Num 3000), variant = Some ''toast'', type' = Some ''success'', position = None\<rparr>)] initial))
   \<and> removeNotification ''notification_7'' (run [Add 1000 ''Saved'' (Some \<lparr>duration = Some (Num 3000), variant = Some ''toast'', type' = Some ''success'', position = None\<rparr>)] initial)
       = run [Add 1000 ''Saved'' (Some \<lparr>duration = Some (Num 3000), variant = Some ''toast'', type' = Some ''success'', position = None\<rparr>)] initial
   \<and> timers (run [Add 1000 ''Saved'' (Some \<lparr>duration = Some (Num 3000), variant = Some ''toast'', type' = Some ''success'', position = None\<rparr>), Remove ''notification_1000''] initial)
       = [\<lparr>delay = Num 3000, target = ''notification_1000''\<rparr>]
   \<and> notifications (run [Add 1000 ''Saved'' (Some \<lparr>duration = Some (Num 3000), variant = Some ''toast'', type' = Some ''success'', position = None\<rparr>), Remove ''notification_1000''] initial) = []
   \<and> notifications (fireTimer 0 (run [Add 1000 ''Saved'' (Some \<lparr>duration = Some (Num 3000), variant = Some ''toast'', type' = Some ''success'', position = None\<rparr>), Remove ''notification_1000''] initial)) = []"
  using removeNotification_absent_noop [of "''notification_7''"
      "run [Add 1000 ''Saved'' (Some \<lparr>duration = Some (Num 3000), variant = Some ''toast'', type' = Some ''success'', position = None\<rparr>)] initial" 0]
    removeNotification_absent_noop [of "''x''"
      "run [Add 1000 ''Saved'' (Some \<lparr>duration = Some (Num 3000), variant = Some ''toast'', type' = Some ''success'', position = None\<rparr>), Remove ''notification_1000''] initial" 0]
  by (simp add: eval_run)

text \<open>
  C7. \<open>addNotification\<close> appends one record and leaves the records before it as they
  are; \<open>removeNotification\<close> leaves the records with another id, and their order, as they
  are, and adds nothing; and after any run of adds, removals and timers the list is a
  subsequence of the old list followed by the records as the adds created them, so no
  record is ever altered or moved.
\<close>

theorem set_changes_by_append_or_removal_only:
  "notifications (addNotification now msg opts st) =
     notifications st @ [\<lparr>id' = notification_id now, message = msg, options = opts\<rparr>]
   \<and> filter (\<lambda>n. id' n \<noteq> i) (notifications (removeNotification i st)) =
       filter (\<lambda>n. id' n \<noteq> i) (notifications st)
   \<and> subseq (notifications (removeNotification i st)) (notifications st)
   \<and> subseq (notifications (run evs st)) (notifications st @ created evs)"
  by (simp add: notifications_addNotification notifications_removeNotification
      notifications_run_subseq)

theorem set_changes_by_append_or_removal_only_witness:
  "notifications (run [Add 1000 ''a'' None, Add 1001 ''b'' None, Remove ''notification_1000'', Add 1002 ''c'' None] initial) =
     [\<lparr>id' = ''notification_1001'', message = ''b'', options = None\<rparr>,
      \<lparr>id' = ''notification_1002'', message = ''c'', options = None\<rparr>]
   \<and> subseq [\<lparr>id' = ''notification_1001'', message = ''b'', options = None\<rparr>,
              \<lparr>id' = ''notification_1002'', message = ''c'', options = None\<rparr>]
        [\<lparr>id' = ''notification_1000'', message = ''a'', options = None\<rparr>,
         \<lparr>id' = ''notification_1001'', message = ''b'', options = None\<rparr>,
         \<lparr>id' = ''notification_1002'', message = ''c'', options = None\<rparr>]"
  using set_changes_by_append_or_removal_only [of 0 "''''" None initial "''''"
      "[Add 1000 ''a'' None, Add 1001 ''b'' None, Remove ''notification_1000'', Add 1002 ''c'' None]"]
  by (simp add: eval_run)

text \<open>
  C9. The hook called where no provider supplies a context fails with the error of the
  source, at the call; it fails in no other case, and otherwise returns the context.
\<close>

theorem useNotification_outside_provider:
  "useNotification (None :: 'ctx option) =
     Inl (Error ''useNotification must be used within a NotificationProvider'')
   \<and> isl (useNotification ctx) = (ctx = None)
   \<and> useNotification (Some c) = Inr c"
  by (simp add: useNotification_def split: option.splits)

text \<open>
  C10. One call of \<open>removeNotification\<close> removes every record that has the given id:
  none is left, the list shrinks by the number of records with that id, and the pending
  timers are not touched. With two records of one id (two adds at one clock value) one
  call removes both.
\<close>

theorem removeNotification_removes_every_match:
  "(\<forall>n \<in> set (notifications (removeNotification i st)). id' n \<noteq> i)
   \<and> length (notifications (removeNotification i st)) =
       length (notifications st) - length (filter (\<lambda>n. id' n = i) (notifications st))
   \<and> timers (removeNotification i st) = timers st"
proof -
  have "length (filter (\<lambda>n. id' n = i) (notifications st))
        + length (filter (\<lambda>n. id' n \<noteq> i) (notifications st)) = length (notifications st)"
    by (rule sum_length_filter_compl)
  then show ?thesis
    by (simp add: removeNotification_def)
qed

theorem removeNotification_removes_every_match_witness:
  "notifications (run [Add 1000 ''a'' None, Add 1000 ''b'' None, Add 1001 ''c'' None] initial) =
     [\<lparr>id' = ''notification_1000'', message = ''a'', options = None\<rparr>,
      \<lparr>id' = ''notification_1000'', message = ''b'', options = None\<rparr>,
      \<lparr>id' = ''notification_1001'', message = ''c'', options = None\<rparr>]
   \<and> notifications (removeNotification ''notification_1000''
        (run [Add 1000 ''a'' None, Add 1000 ''b'' None, Add 1001 ''c'' None] initial)) =
     [\<lparr>id' = ''notification_1001'', message = ''c'', options = None\<rparr>]
   \<and> length (notifications (removeNotification ''notification_1000''
        (run [Add 1000 ''a'' None, Add 1000 ''b'' None, Add 1001 ''c'' None] initial))) = 3 - 2"
  using removeNotification_removes_every_match [of "''notification_1000''"
      "run [Add 1000 ''a'' None, Add 1000 ''b'' None, Add 1001 ''c'' None] initial"]
  by (simp add: eval_run)

section \<open>Claims about the rendering\<close>

text \<open>
  C2 (where the code departs from it). The claim wants the rendered stack to be A to E
  after seven adds A to G of variant \<open>sooner\<close>, and B to F after A is removed. When the
  seven adds read one clock value, A to E are rendered, but under one id; removing A by
  its id removes all seven records, and the rendered stack is empty.
\<close>

theorem same_millisecond_sooners_leave_together:
  "map key (sooner_views (render (run (adds
       [(1000, ''A'', \<lparr>duration = None, variant = Some ''sooner'', type' = None, position = None\<rparr>),
        (1000, ''B'', \<lparr>duration = None, variant = Some ''sooner'', type' = None, position = None\<rparr>),
        (1000, ''C'', \<lparr>duration = None, variant = Some ''sooner'', type' = None, position = None\<rparr>),
        (1000, ''D'', \<lparr>duration = None, variant = Some ''sooner'', type' = None, position = None\<rparr>),
        (1000, ''E'', \<lparr>duration = None, variant = Some ''sooner'', type' = None, position = None\<rparr>),
        (1000, ''F'', \<lparr>duration = None, variant = Some ''sooner'', type' = None, position = None\<rparr>),
        (1000, ''G'', \<lparr>duration = None, variant = Some ''sooner'', type' = None, position = None\<rparr>)]) initial))) =
     [''notification_1000'', ''notification_1000'', ''notification_1000'',
      ''notification_1000'', ''notification_1000'']
   \<and> map (item_message \<circ> item) (sooner_views (render (run (adds
       [(1000, ''A'', \<lparr>duration = None, variant = Some ''sooner'', type' = None, position = None\<rparr>),
        (1000, ''B'', \<lparr>duration = None, variant = Some ''sooner'', type' = None, position = None\<rparr>),
        (1000, ''C'', \<lparr>duration = None, variant = Some ''sooner'', type' = None, position = None\<rparr>),
        (1000, ''D'', \<lparr>duration = None, variant = Some ''sooner'', type' = None, position = None\<rparr>),
        (1000, ''E'', \<lparr>duration = None, variant = Some ''sooner'', type' = None, position = None\<rparr>),
        (1000, ''F'', \<lparr>duration = None, variant = Some ''sooner'', type' = None, position = None\<rparr>),
        (1000, ''G'', \<lparr>duration = None, variant = Some ''sooner'', type' = None, position = None\<rparr>)]) initial))) =
     [''A'', ''B'', ''C'', ''D'', ''E'']
   \<and> notifications (run (adds
       [(1000, ''A'', \<lparr>duration = None, variant = Some ''sooner'', type' = None, position = None\<rparr>),
        (1000, ''B'', \<lparr>duration = None, variant = Some ''sooner'', type' = None, position = None\<rparr>),
        (1000, ''C'', \<lparr>duration = None, variant = Some ''sooner'', type' = None, position = None\<rparr>),
        (1000, ''D'', \<lparr>duration = None, variant = Some ''sooner'', type' = None, position = None\<rparr>),
        (1000, ''E'', \<lparr>duration = None, variant = Some ''sooner'', type' = None, position = None\<rparr>),
        (1000, ''F'', \<lparr>duration = None, variant = Some ''sooner'', type' = None, position = None\<rparr>),
        (1000, ''G'', \<lparr>duration = None, variant = Some ''sooner'', type' = None, position = None\<rparr>)] @ [Remove ''notification_1000'']) initial) = []
   \<and> sooner_views (render (run (adds
       [(1000, ''A'', \<lparr>duration = None, variant = Some ''sooner'', type' = None, position = None\<rparr>),
        (1000, ''B'', \<lparr>duration = None, variant = Some ''sooner'', type' = None, position = None\<rparr>),
        (1000, ''C'', \<lparr>duration = None, variant = Some ''sooner'', type' = None, position = None\<rparr>),
        (1000, ''D'', \<lparr>duration = None, variant = Some ''sooner'', type' = None, position = None\<rparr>),
        (1000, ''E'', \<lparr>duration = None, variant = Some ''sooner'', type' = None, position = None\<rparr>),
        (1000, ''F'', \<lparr>duration = None, variant = Some ''sooner'', type' = None, position = None\<rparr>),
        (1000, ''G'', \<lparr>duration = None, variant = Some ''sooner'', type' = None, position = None\<rparr>)] @ [Remove ''notification_1000'']) initial)) = []"
  by (simp add: adds_def eval_run eval_render)

text \<open>
  C3 (where the code departs from it). The claim wants every banner notification of the
  set rendered. The container renders the records whose variant is \<open>toast\<close> and the
  first five whose variant is \<open>sooner\<close>, and nothing else: the banner of the example
  is in the set and nothing of it is in the rendered output.
\<close>

theorem banner_is_not_rendered:
  "notifications (run [Add 1000 ''This is a banner notification!''
       (Some \<lparr>duration = Some (Num 7000), variant = Some ''banner'', type' = Some ''error'', position = None\<rparr>)] initial) =
     [\<lparr>id' = ''notification_1000'', message = ''This is a banner notification!'',
       options = Some \<lparr>duration = Some (Num 7000), variant = Some ''banner'', type' = Some ''error'', position = None\<rparr>\<rparr>]
   \<and> render (run [Add 1000 ''This is a banner notification!''
       (Some \<lparr>duration = Some (Num 7000), variant = Some ''banner'', type' = Some ''error'', position = None\<rparr>)] initial) =
     \<lparr>toast_views = [],
      sooner_group_classes = [Class ''z-50'', Class ''fixed top-5 right-5'', Class ''space-y-2''],
      sooner_views = []\<rparr>"
  by (simp add: eval_run eval_render)

text \<open>
  C6, against the claim as stated. A position, type or variant outside the declared
  values is not replaced by the default: the class table is indexed with the value as it
  is. It has no entry for \<open>middle\<close>, \<open>info\<close> or \<open>popup\<close>, so the item gets no class where
  the default would give one; for \<open>constructor\<close> it hands on the inherited member.
\<close>

theorem unknown_option_value_gets_no_class:
  "classes (toast_wrapper \<lparr>id' = ''notification_1000'', message = ''m'',
      options = Some \<lparr>duration = None, variant = Some ''toast'', type' = None, position = Some ''middle''\<rparr>\<rparr>) =
     [Class ''z-50'', Undefined]
   \<and> classes (toast_wrapper \<lparr>id' = ''notification_1000'', message = ''m'',
      options = Some \<lparr>duration = None, variant = Some ''toast'', type' = None, position = Some ''constructor''\<rparr>\<rparr>) =
     [Class ''z-50'', Inherited ''constructor'']
   \<and> classes (toast_wrapper \<lparr>id' = ''notification_1000'', message = ''m'',
      options = Some \<lparr>duration = None, variant = Some ''toast'', type' = None, position = None\<rparr>\<rparr>) =
     [Class ''z-50'', Class ''fixed top-5 right-5'']
   \<and> item_classes (NotificationItem ''notification_1000'' ''m''
      (Some \<lparr>duration = None, variant = Some ''popup'', type' = Some ''info'', position = None\<rparr>)) =
     [Class baseClasses, Undefined, Undefined]
   \<and> item_classes (NotificationItem ''notification_1000'' ''m'' None) =
     [Class baseClasses, Class ''bg-gray-200 text-black'', Class ''shadow-lg'']"
  by (simp add: eval_render opt_field_def)

text \<open>
  C6, as amended. An option that is left out, or is the empty string, is read as
  \<open>top-right\<close>, \<open>default\<close> or \<open>toast\<close> where the classes are looked up. A non-empty value
  outside the declared ones is looked up as it is and nothing fails: the result is
  \<open>undefined\<close>, or the inherited member when the value is the name of a member of
  \<open>Object.prototype\<close>, and in neither case a class. \<open>addNotification\<close> stores the options
  as they were given, whatever they are.
\<close>

theorem omitted_option_gets_default_class:
  "((opt_field position (options n) = None \<or> opt_field position (options n) = Some []) \<longrightarrow>
      classes (toast_wrapper n) = [Class ''z-50'', Class ''fixed top-5 right-5''])
   \<and> ((opt_field type' opts = None \<or> opt_field type' opts = Some []) \<longrightarrow>
      item_classes (NotificationItem i msg opts) ! 1 = Class ''bg-gray-200 text-black'')
   \<and> ((opt_field variant opts = None \<or> opt_field variant opts = Some []) \<longrightarrow>
      item_classes (NotificationItem i msg opts) ! 2 = Class ''shadow-lg'')
   \<and> (opt_field position (options n) = Some p \<and> p \<noteq> [] \<and> p \<notin> set declared_positions \<longrightarrow>
      classes (toast_wrapper n) =
        [Class ''z-50'', if p \<in> set object_prototype_keys then Inherited p else Undefined])
   \<and> (opt_field type' opts = Some t \<and> t \<noteq> [] \<and> t \<notin> set declared_types \<longrightarrow>
      item_classes (NotificationItem i msg opts) ! 1 =
        (if t \<in> set object_prototype_keys then Inherited t else Undefined))
   \<and> (opt_field variant opts = Some v \<and> v \<noteq> [] \<and> v \<notin> set declared_variants \<longrightarrow>
      item_classes (NotificationItem i msg opts) ! 2 =
        (if v \<in> set object_prototype_keys then Inherited v else Undefined))
   \<and> notifications (addNotification now msg opts st) =
       notifications st @ [\<lparr>id' = notification_id now, message = msg, options = opts\<rparr>]"
proof (intro conjI impI)
  assume "opt_field position (options n) = None \<or> opt_field position (options n) = Some []"
  then show "classes (toast_wrapper n) = [Class ''z-50'', Class ''fixed top-5 right-5'']"
    by (auto simp: toast_wrapper_def or_default_def positionClasses_def index_object_def)
next
  assume "opt_field type' opts = None \<or> opt_field type' opts = Some []"
  then show "item_classes (NotificationItem i msg opts) ! 1 = Class ''bg-gray-200 text-black''"
    by (auto simp: NotificationItem_def or_default_def typeClasses_def index_object_def)
next
  assume "opt_field variant opts = None \<or> opt_field variant opts = Some []"
  then show "item_classes (NotificationItem i msg opts) ! 2 = Class ''shadow-lg''"
    by (auto simp: NotificationItem_def or_default_def variantClasses_def index_object_def)
next
  assume a: "opt_field position (options n) = Some p \<and> p \<noteq> [] \<and> p \<notin> set declared_positions"
  then have "map_of positionClasses p = None"
    by (simp add: positionClasses_def declared_positions_def)
  with a show "classes (toast_wrapper n) =
        [Class ''z-50'', if p \<in> set object_prototype_keys then Inherited p else Undefined]"
    by (simp add: toast_wrapper_def or_default_def index_object_def)
next
  assume a: "opt_field type' opts = Some t \<and> t \<noteq> [] \<and> t \<notin> set declared_types"
  then have "map_of typeClasses t = None"
    by (simp add: typeClasses_def declared_types_def)
  with a show "item_classes (NotificationItem i msg opts) ! 1 =
        (if t \<in> set object_prototype_keys then Inherited t else Undefined)"
    by (simp add: NotificationItem_def or_default_def index_object_def)
next
  assume a: "opt_field variant opts = Some v \<and> v \<noteq> [] \<and> v \<notin> set declared_variants"
  then have "map_of variantClasses v = None"
    by (simp add: variantClasses_def declared_variants_def)
  with a show "item_classes (NotificationItem i msg opts) ! 2 =
        (if v \<in> set object_prototype_keys then Inherited v else Undefined)"
    by (simp add: NotificationItem_def or_default_def index_object_def)
next
  show "notifications (addNotification now msg opts st) =
       notifications st @ [\<lparr>id' = notification_id now, message = msg, options = opts\<rparr>]"
    by (rule notifications_addNotification)
qed

theorem omitted_option_gets_default_class_witness:
  "classes (toast_wrapper \<lparr>id' = ''notification_1000'', message = ''m'', options = None\<rparr>) =
     [Class ''z-50'', Class ''fixed top-5 right-5'']
   \<and> item_classes (NotificationItem ''notification_1000'' ''m'' None) ! 1 = Class ''bg-gray-200 text-black''
   \<and> item_classes (NotificationItem ''notification_1000'' ''m'' None) ! 2 = Class ''shadow-lg''
   \<and> classes (toast_wrapper \<lparr>id' = ''notification_1000'', message = ''m'',
        options = Some \<lparr>duration = None, variant = Some ''popup'', type' = Some ''info'', position = Some ''middle''\<rparr>\<rparr>) =
     [Class ''z-50'', Undefined]
   \<and> item_classes (NotificationItem ''notification_1000'' ''m''
        (Some \<lparr>duration = None, variant = Some ''popup'', type' = Some ''info'', position = Some ''middle''\<rparr>)) ! 1 = Undefined
   \<and> item_classes (NotificationItem ''notification_1000'' ''m''
        (Some \<lparr>duration = None, variant = Some ''popup'', type' = Some ''info'', position = Some ''middle''\<rparr>)) ! 2 = Undefined
   \<and> classes (toast_wrapper \<lparr>id' = ''notification_1000'', message = ''m'',
        options = Some \<lparr>duration = None, variant = Some ''valueOf'', type' = Some ''toString'', position = Some ''constructor''\<rparr>\<rparr>) =
     [Class ''z-50'', Inherited ''constructor'']
   \<and> item_classes (NotificationItem ''notification_1000'' ''m''
        (Some \<lparr>duration = None, variant = Some ''valueOf'', type' = Some ''toString'', position = Some ''constructor''\<rparr>)) ! 1 = Inherited ''toString''
   \<and> item_classes (NotificationItem ''notification_1000'' ''m''
        (Some \<lparr>duration = None, variant = Some ''valueOf'', type' = Some ''toString'', position = Some ''constructor''\<rparr>)) ! 2 = Inherited ''valueOf''"
  using omitted_option_gets_default_class [of
      "\<lparr>id' = ''notification_1000'', message = ''m'', options = None\<rparr>" None
      "''notification_1000''" "''m''" "''''" "''''" "''''" 0 initial]
    omitted_option_gets_default_class [of
      "\<lparr>id' = ''notification_1000'', message = ''m'',
        options = Some \<lparr>duration = None, variant = Some ''popup'', type' = Some ''info'', position = Some ''middle''\<rparr>\<rparr>"
      "Some \<lparr>duration = None, variant = Some ''popup'', type' = Some ''info'', position = Some ''middle''\<rparr>"
      "''notification_1000''" "''m''" "''middle''" "''info''" "''popup''" 0 initial]
    omitted_option_gets_default_class [of
      "\<lparr>id' = ''notification_1000'', message = ''m'',
        options = Some \<lparr>duration = None, variant = Some ''valueOf'', type' = Some ''toString'', position = Some ''constructor''\<rparr>\<rparr>"
      "Some \<lparr>duration = None, variant = Some ''valueOf'', type' = Some ''toString'', position = Some ''constructor''\<rparr>"
      "''notification_1000''" "''m''" "''constructor''" "''toString''" "''valueOf''" 0 initial]
  by (simp add: opt_field_def declared_positions_def declared_types_def declared_variants_def
      object_prototype_keys_def)

text \<open>
  C8, against the claim as stated. The stack has one anchor, the position of its first
  record. A second record that declares \<open>bottom-left\<close> is placed in the stack anchored
  at \<open>top-right\<close>, with the offset of index 1; alone it would be anchored at
  \<open>bottom-left\<close> with the offset of index 0.
\<close>

theorem sooner_anchor_ignores_own_position:
  "sooner_group_classes (NotificationContainer
     [\<lparr>id' = ''notification_1000'', message = ''A'',
        options = Some \<lparr>duration = None, variant = Some ''sooner'', type' = None, position = Some ''top-right''\<rparr>\<rparr>,
      \<lparr>id' = ''notification_1001'', message = ''B'',
        options = Some \<lparr>duration = None, variant = Some ''sooner'', type' = None, position = Some ''bottom-left''\<rparr>\<rparr>]) =
     [Class ''z-50'', Class ''fixed top-5 right-5'', Class ''space-y-2'']
   \<and> map classes (sooner_views (NotificationContainer
     [\<lparr>id' = ''notification_1000'', message = ''A'',
        options = Some \<lparr>duration = None, variant = Some ''sooner'', type' = None, position = Some ''top-right''\<rparr>\<rparr>,
      \<lparr>id' = ''notification_1001'', message = ''B'',
        options = Some \<lparr>duration = None, variant = Some ''sooner'', type' = None, position = Some ''bottom-left''\<rparr>\<rparr>])) =
     [[Class ''transition-all duration-300 ease-in-out'', Class ''translate-y-0'', Class ''w-[calc(20rem-0px)]''],
      [Class ''transition-all duration-300 ease-in-out'', Class ''translate-y--2'', Class ''w-[calc(20rem-4px)]'']]
   \<and> sooner_group_classes (NotificationContainer
     [\<lparr>id' = ''notification_1001'', message = ''B'',
        options = Some \<lparr>duration = None, variant = Some ''sooner'', type' = None, position = Some ''bottom-left''\<rparr>\<rparr>]) =
     [Class ''z-50'', Class ''fixed bottom-5 left-5'', Class ''space-y-2'']
   \<and> map classes (sooner_views (NotificationContainer
     [\<lparr>id' = ''notification_1001'', message = ''B'',
        options = Some \<lparr>duration = None, variant = Some ''sooner'', type' = None, position = Some ''bottom-left''\<rparr>\<rparr>])) =
     [[Class ''transition-all duration-300 ease-in-out'', Class ''translate-y-0'', Class ''w-[calc(20rem-0px)]'']]"
  by (simp add: eval_render opt_field_def string_of_nat.simps digit_char_def)

text \<open>
  C8, as amended. The rendered stack is anchored as a whole: at \<open>top-right\<close> when it is
  empty or its first record leaves the position out, and at the declared position of its
  first record otherwise, which is one of the five. The record at index \<open>k\<close> of the
  stack (the capped, filtered list) gets classes that depend on \<open>k\<close> alone, a shift of
  \<open>-2k\<close> and a width reduced by \<open>4k\<close> pixels, and two different indices get different
  classes.
\<close>

theorem sooner_group_anchor_and_offsets:
  "(sooners ns = [] \<longrightarrow>
      sooner_group_classes (NotificationContainer ns) =
        [Class ''z-50'', Class ''fixed top-5 right-5'', Class ''space-y-2''])
   \<and> (sooners ns = s # ss
        \<and> (opt_field position (options s) = None \<or> opt_field position (options s) = Some []) \<longrightarrow>
      sooner_group_classes (NotificationContainer ns) =
        [Class ''z-50'', Class ''fixed top-5 right-5'', Class ''space-y-2''])
   \<and> (sooners ns = s # ss \<and> opt_field position (options s) = Some p
        \<and> p \<in> set declared_positions \<longrightarrow>
      sooner_group_classes (NotificationContainer ns) =
        [Class ''z-50'', index_object positionClasses p, Class ''space-y-2'']
      \<and> (\<exists>c. index_object positionClasses p = Class c))
   \<and> length (sooner_views (NotificationContainer ns)) = length (sooners ns)
   \<and> length (sooners ns) \<le> 5
   \<and> (k < length (sooners ns) \<longrightarrow>
      key (sooner_views (NotificationContainer ns) ! k) = id' (sooners ns ! k)
      \<and> classes (sooner_views (NotificationContainer ns) ! k) =
          [Class ''transition-all duration-300 ease-in-out'',
           Class (''translate-y-'' @ string_of_int (- 2 * int k)),
           Class (''w-[calc(20rem-'' @ string_of_nat (4 * k) @ ''px)]'')])
   \<and> (k < length (sooners ns) \<and> j < length (sooners ns) \<and> k \<noteq> j \<longrightarrow>
      classes (sooner_views (NotificationContainer ns) ! k) \<noteq>
      classes (sooner_views (NotificationContainer ns) ! j))"
proof (intro conjI impI)
  assume "sooners ns = []"
  then show "sooner_group_classes (NotificationContainer ns) =
        [Class ''z-50'', Class ''fixed top-5 right-5'', Class ''space-y-2'']"
    by (simp add: NotificationContainer_def sooner_group_position_def or_default_def
        positionClasses_def index_object_def)
next
  assume "sooners ns = s # ss
        \<and> (opt_field position (options s) = None \<or> opt_field position (options s) = Some [])"
  then show "sooner_group_classes (NotificationContainer ns) =
        [Class ''z-50'', Class ''fixed top-5 right-5'', Class ''space-y-2'']"
    by (auto simp: NotificationContainer_def sooner_group_position_def or_default_def
        positionClasses_def index_object_def)
next
  assume a: "sooners ns = s # ss \<and> opt_field position (options s) = Some p
        \<and> p \<in> set declared_positions"
  then have "p \<noteq> []" by (auto simp: declared_positions_def)
  with a show "sooner_group_classes (NotificationContainer ns) =
        [Class ''z-50'', index_object positionClasses p, Class ''space-y-2'']"
    by (simp add: NotificationContainer_def sooner_group_position_def or_default_def)
  from a show "\<exists>c. index_object positionClasses p = Class c"
    by (auto simp: declared_positions_def positionClasses_def index_object_def)
next
  show "length (sooner_views (NotificationContainer ns)) = length (sooners ns)"
    by (rule length_sooner_views)
next
  show "length (sooners ns) \<le> 5" by (simp add: sooners_def)
next
  assume k: "k < length (sooners ns)"
  then show "key (sooner_views (NotificationContainer ns) ! k) = id' (sooners ns ! k)"
    by (simp add: sooner_views_nth sooner_wrapper_def)
  from k show "classes (sooner_views (NotificationContainer ns) ! k) =
          [Class ''transition-all duration-300 ease-in-out'',
           Class (''translate-y-'' @ string_of_int (- 2 * int k)),
           Class (''w-[calc(20rem-'' @ string_of_nat (4 * k) @ ''px)]'')]"
    by (simp add: sooner_views_nth sooner_wrapper_def string_of_int_of_nat mult.commute)
next
  assume "k < length (sooners ns) \<and> j < length (sooners ns) \<and> k \<noteq> j"
  then show "classes (sooner_views (NotificationContainer ns) ! k) \<noteq>
      classes (sooner_views (NotificationContainer ns) ! j)"
    by (simp add: sooner_views_nth sooner_wrapper_classes_differ)
qed

theorem sooner_group_anchor_and_offsets_witness:
  "sooners
     [\<lparr>id' = ''notification_1000'', message = ''A'', options = Some \<lparr>duration = None, variant = Some ''sooner'', type' = None, position = Some ''top-left''\<rparr>\<rparr>,
      \<lparr>id' = ''notification_1001'', message = ''T'', options = Some \<lparr>duration = None, variant = Some ''toast'', type' = None, position = None\<rparr>\<rparr>,
      \<lparr>id' = ''notification_1002'', message = ''B'', options = Some \<lparr>duration = None, variant = Some ''sooner'', type' = None, position = Some ''bottom-left''\<rparr>\<rparr>] =
     [\<lparr>id' = ''notification_1000'', message = ''A'', options = Some \<lparr>duration = None, variant = Some ''sooner'', type' = None, position = Some ''top-left''\<rparr>\<rparr>,
      \<lparr>id' = ''notification_1002'', message = ''B'', options = Some \<lparr>duration = None, variant = Some ''sooner'', type' = None, position = Some ''bottom-left''\<rparr>\<rparr>]
   \<and> sooner_group_classes (NotificationContainer
     [\<lparr>id' = ''notification_1000'', message = ''A'', options = Some \<lparr>duration = None, variant = Some ''sooner'', type' = None, position = Some ''top-left''\<rparr>\<rparr>,
      \<lparr>id' = ''notification_1001'', message = ''T'', options = Some \<lparr>duration = None, variant = Some ''toast'', type' = None, position = None\<rparr>\<rparr>,
      \<lparr>id' = ''notification_1002'', message = ''B'', options = Some \<lparr>duration = None, variant = Some ''sooner'', type' = None, position = Some ''bottom-left''\<rparr>\<rparr>]) =
     [Class ''z-50'', Class ''fixed top-5 left-5'', Class ''space-y-2'']
   \<and> key (sooner_views (NotificationContainer
     [\<lparr>id' = ''notification_1000'', message = ''A'', options = Some \<lparr>duration = None, variant = Some ''sooner'', type' = None, position = Some ''top-left''\<rparr>\<rparr>,
      \<lparr>id' = ''notification_1001'', message = ''T'', options = Some \<lparr>duration = None, variant = Some ''toast'', type' = None, position = None\<rparr>\<rparr>,
      \<lparr>id' = ''notification_1002'', message = ''B'', options = Some \<lparr>duration = None, variant = Some ''sooner'', type' = None, position = Some ''bottom-left''\<rparr>\<rparr>]) ! 1) = ''notification_1002''
   \<and> classes (sooner_views (NotificationContainer
     [\<lparr>id' = ''notification_1000'', message = ''A'', options = Some \<lparr>duration = None, variant = Some ''sooner'', type' = None, position = Some ''top-left''\<rparr>\<rparr>,
      \<lparr>id' = ''notification_1001'', message = ''T'', options = Some \<lparr>duration = None, variant = Some ''toast'', type' = None, position = None\<rparr>\<rparr>,
      \<lparr>id' = ''notification_1002'', message = ''B'', options = Some \<lparr>duration = None, variant = Some ''sooner'', type' = None, position = Some ''bottom-left''\<rparr>\<rparr>]) ! 1) =
     [Class ''transition-all duration-300 ease-in-out'', Class ''translate-y--2'', Class ''w-[calc(20rem-4px)]'']
   \<and> classes (sooner_views (NotificationContainer
     [\<lparr>id' = ''notification_1000'', message = ''A'', options = Some \<lparr>duration = None, variant = Some ''sooner'', type' = None, position = Some ''top-left''\<rparr>\<rparr>,
      \<lparr>id' = ''notification_1001'', message = ''T'', options = Some \<lparr>duration = None, variant = Some ''toast'', type' = None, position = None\<rparr>\<rparr>,
      \<lparr>id' = ''notification_1002'', message = ''B'', options = Some \<lparr>duration = None, variant = Some ''sooner'', type' = None, position = Some ''bottom-left''\<rparr>\<rparr>]) ! 1) \<noteq>
     classes (sooner_views (NotificationContainer
     [\<lparr>id' = ''notification_1000'', message = ''A'', options = Some \<lparr>duration = None, variant = Some ''sooner'', type' = None, position = Some ''top-left''\<rparr>\<rparr>,
      \<lparr>id' = ''notification_1001'', message = ''T'', options = Some \<lparr>duration = None, variant = Some ''toast'', type' = None, position = None\<rparr>\<rparr>,
      \<lparr>id' = ''notification_1002'', message = ''B'', options = Some \<lparr>duration = None, variant = Some ''sooner'', type' = None, position = Some ''bottom-left''\<rparr>\<rparr>]) ! 0)"
proof -
  have s: "sooners
     [\<lparr>id' = ''notification_1000'', message = ''A'', options = Some \<lparr>duration = None, variant = Some ''sooner'', type' = None, position = Some ''top-left''\<rparr>\<rparr>,
      \<lparr>id' = ''notification_1001'', message = ''T'', options = Some \<lparr>duration = None, variant = Some ''toast'', type' = None, position = None\<rparr>\<rparr>,
      \<lparr>id' = ''notification_1002'', message = ''B'', options = Some \<lparr>duration = None, variant = Some ''sooner'', type' = None, position = Some ''bottom-left''\<rparr>\<rparr>] =
     [\<lparr>id' = ''notification_1000'', message = ''A'', options = Some \<lparr>duration = None, variant = Some ''sooner'', type' = None, position = Some ''top-left''\<rparr>\<rparr>,
      \<lparr>id' = ''notification_1002'', message = ''B'', options = Some \<lparr>duration = None, variant = Some ''sooner'', type' = None, position = Some ''bottom-left''\<rparr>\<rparr>]"
    by (simp add: sooners_def opt_field_def)
  have n: "string_of_int (- 2) = ''-2''" "string_of_nat 4 = ''4''"
    "string_of_int 0 = ''0''" "string_of_nat 0 = ''0''"
    by (simp_all add: string_of_int_def string_of_nat.simps digit_char_def)
  show ?thesis
    using sooner_group_anchor_and_offsets [of
      "[\<lparr>id' = ''notification_1000'', message = ''A'', options = Some \<lparr>duration = None, variant = Some ''sooner'', type' = None, position = Some ''top-left''\<rparr>\<rparr>,
      \<lparr>id' = ''notification_1001'', message = ''T'', options = Some \<lparr>duration = None, variant = Some ''toast'', type' = None, position = None\<rparr>\<rparr>,
      \<lparr>id' = ''notification_1002'', message = ''B'', options = Some \<lparr>duration = None, variant = Some ''sooner'', type' = None, position = Some ''bottom-left''\<rparr>\<rparr>]"
      "\<lparr>id' = ''notification_1000'', message = ''A'', options = Some \<lparr>duration = None, variant = Some ''sooner'', type' = None, position = Some ''top-left''\<rparr>\<rparr>"
      "[\<lparr>id' = ''notification_1002'', message = ''B'', options = Some \<lparr>duration = None, variant = Some ''sooner'', type' = None, position = Some ''bottom-left''\<rparr>\<rparr>]"
      "''top-left''" 1 0]
      sooner_group_anchor_and_offsets [of
      "[\<lparr>id' = ''notification_1000'', message = ''A'', options = Some \<lparr>duration = None, variant = Some ''sooner'', type' = None, position = Some ''top-left''\<rparr>\<rparr>,
      \<lparr>id' = ''notification_1001'', message = ''T'', options = Some \<lparr>duration = None, variant = Some ''toast'', type' = None, position = None\<rparr>\<rparr>,
      \<lparr>id' = ''notification_1002'', message = ''B'', options = Some \<lparr>duration = None, variant = Some ''sooner'', type' = None, position = Some ''bottom-left''\<rparr>\<rparr>]"
      "\<lparr>id' = ''notification_1000'', message = ''A'', options = Some \<lparr>duration = None, variant = Some ''sooner'', type' = None, position = Some ''top-left''\<rparr>\<rparr>"
      "[\<lparr>id' = ''notification_1002'', message = ''B'', options = Some \<lparr>duration = None, variant = Some ''sooner'', type' = None, position = Some ''bottom-left''\<rparr>\<rparr>]"
      "''top-left''" 0 1]
    by (simp add: s n opt_field_def declared_positions_def positionClasses_def index_object_def)
qed

end
